theory Spec2Isabelle
  imports Complex_Main
begin

section \<open>The connection lifecycle and event dispatch of \<open>discord/client.py\<close>\<close>

text \<open>
  A shallow embedding of the \<open>Client\<close> class of \<open>src/discord/client.py\<close>: its
  constructor, \<open>login\<close>, \<open>logout\<close>, \<open>close\<close>, \<open>_get_gateway\<close>, \<open>_make_websocket\<close>,
  \<open>connect\<close>, \<open>dispatch\<close>, \<open>_run_event\<close>, \<open>on_error\<close>, \<open>received_message\<close> and
  \<open>keep_alive_handler\<close>.

  Conventions.
  \<^item> A method becomes a function from the client's state to an outcome and the state it
    leaves behind, \<open>(exn + 'a) \<times> client\<close>: \<open>Inl e\<close> is "raised \<open>e\<close>", and what was
    written before the raise stays written, as in Python.
  \<^item> Python attribute names that start with an underscore get the prefix \<open>u_\<close>
    (\<open>_closed\<close> is \<open>u_closed\<close>); methods lose the underscore (\<open>_run_event\<close> is
    \<open>run_event\<close>).
  \<^item> An attribute that \<open>__init__\<close> never assigns is an \<open>option\<close> whose \<open>None\<close> means
    "the instance has no such attribute": reading it goes through \<open>__getattr__\<close>, which
    raises \<open>AttributeError\<close> for every name outside the five it forwards.
  \<^item> What a method does to the outside world (HTTP requests, websocket traffic, output
    on stderr, log records) and the calls it makes into code that is not its own
    (handlers, parsers, callbacks, task creation) are appended to the field \<open>trace\<close>,
    in program order.
  \<^item> What the outside world answers (an HTTP response, the clock, the frames that
    arrive) is an argument of the function that asks for it.
\<close>

subsection \<open>Values, exceptions, effects\<close>

text \<open>
  The values \<open>json.loads\<close> produces. A dictionary is an association list with distinct
  keys; Python's \<open>None\<close> is \<open>JNull\<close>. Numbers with a fraction or an exponent (Python
  floats) are left out: the frames and bodies this code reads carry integers.
\<close>

datatype json =
    JNull
  | JBool bool
  | JInt int
  | JStr string
  | JArr "json list"
  | JObj "(string \<times> json) list"

text \<open>
  The exceptions the code can meet. \<open>UserError\<close> is any other subclass of
  \<open>Exception\<close> that user code raises; \<open>SystemExiting\<close> is an exception outside the
  \<open>Exception\<close> hierarchy (\<open>SystemExit\<close>, \<open>KeyboardInterrupt\<close>, \<open>GeneratorExit\<close>), which
  an \<open>except Exception\<close> clause does not catch.
\<close>

datatype exn =
    AttributeError
  | KeyError
  | TypeError
  | ValueError
  | OverflowError
  | ClientException string
  | LoginFailure string
  | HTTPException int json
  | GatewayNotFound
  | UserError string
  | SystemExiting string

fun is_Exception :: "exn \<Rightarrow> bool" where
  "is_Exception (SystemExiting _) = False"
| "is_Exception _ = True"

text \<open>Positional and keyword arguments of a call: \<open>*args, **kwargs\<close>.\<close>

type_synonym args = "json list \<times> (string \<times> json) list"

text \<open>The constants of \<open>endpoints.py\<close> (not among the sources), kept symbolic.\<close>

datatype endpoint = LOGIN | LOGOUT | GATEWAY

datatype loglevel = Debug | Info

datatype logmsg =
    WebSocketEvent json
  | DispatchingEvent string
  | UnhandledOp json
  | UnhandledEvent json
  | KeepingAlive int
  | RequestReturned string endpoint int
  | LoginStatus int
  | CreatedWebsocket json
  | SentInitialPayload

text \<open>
  The coroutines this code hands to \<open>utils.create_task\<close>: \<open>_run_event(method, *args,
  **kwargs)\<close> and \<open>keep_alive_handler(interval)\<close>, the interval in seconds.
\<close>

datatype coro =
    RunEvent string args
  | KeepAliveHandler rat

datatype effect =
    Log loglevel logmsg
  | HttpGet endpoint
  | HttpPost endpoint "json option"
  | WsConnect json
  | WsSend json
  | WsClose
  | CallHandler string args
  | CallParser string json
  | RunCallback string args
  | CreateTask coro
  | CancelTask nat
  | Sleep rat
  | PrintIgnoring json
  | PrintExc "exn option"

fun is_network_io :: "effect \<Rightarrow> bool" where
  "is_network_io (HttpGet _) = True"
| "is_network_io (HttpPost _ _) = True"
| "is_network_io (WsConnect _) = True"
| "is_network_io (WsSend _) = True"
| "is_network_io WsClose = True"
| "is_network_io _ = False"

subsection \<open>Python's operations on these values\<close>

definition dict_get :: "(string \<times> json) list \<Rightarrow> string \<Rightarrow> json" where
  "dict_get kvs k = (case map_of kvs k of None \<Rightarrow> JNull | Some v \<Rightarrow> v)"

text \<open>\<open>x.get(k)\<close>: only a dictionary has the method.\<close>

fun py_get :: "json \<Rightarrow> string \<Rightarrow> exn + json" where
  "py_get (JObj kvs) k = Inr (dict_get kvs k)"
| "py_get _ k = Inl AttributeError"

text \<open>\<open>x[k]\<close> for a string \<open>k\<close>: a missing key is a \<open>KeyError\<close>, a value that is not a
  dictionary a \<open>TypeError\<close>.\<close>

fun subscript :: "json \<Rightarrow> string \<Rightarrow> exn + json" where
  "subscript (JObj kvs) k = (case map_of kvs k of None \<Rightarrow> Inl KeyError | Some v \<Rightarrow> Inr v)"
| "subscript _ k = Inl TypeError"

text \<open>\<open>x != 0\<close>: \<open>False\<close> equals \<open>0\<close> in Python, everything that is not a number differs
  from it.\<close>

fun ne_zero :: "json \<Rightarrow> bool" where
  "ne_zero (JInt n) = (n \<noteq> 0)"
| "ne_zero (JBool b) = b"
| "ne_zero _ = True"

text \<open>
  \<open>x / 1000.0\<close>: the integer (or boolean) becomes a float first, which raises
  \<open>OverflowError\<close> when it rounds to \<open>2 ^ 1024\<close> or beyond; everything else is a
  \<open>TypeError\<close>. The quotient is kept exact: the rounding of the float division to the
  nearest double is not modelled.
\<close>

definition float_overflow :: "int \<Rightarrow> bool" where
  "float_overflow n = (2 ^ 1024 - 2 ^ 970 \<le> \<bar>n\<bar>)"

fun div_1000 :: "json \<Rightarrow> exn + rat" where
  "div_1000 (JInt n) = (if float_overflow n then Inl OverflowError else Inr (of_int n / 1000))"
| "div_1000 (JBool b) = Inr ((if b then 1 else 0) / 1000)"
| "div_1000 _ = Inl TypeError"

text \<open>\<open>str.lower()\<close> on ASCII text.\<close>

definition lower_char :: "char \<Rightarrow> char" where
  "lower_char ch =
     (let n = (of_char ch :: nat) in if 65 \<le> n \<and> n \<le> 90 then char_of (n + 32) else ch)"

definition lower :: "string \<Rightarrow> string" where
  "lower s = map lower_char s"

subsection \<open>The client's state\<close>

text \<open>
  Modelled from the spec: \<open>ConnectionState\<close> (\<open>state.py\<close> is not among the sources).
  Of the state store only what \<open>client.py\<close> itself reads or writes is kept: the email
  (\<open>None\<close> until a login succeeds, as the class docstring says) and the message history
  with the capacity the constructor passes in. The history is a capacity-bounded
  ordered sequence that evicts its oldest entry on overflow.
\<close>

record connection =
  email :: "string option"
  max_messages :: int
  messages :: "json list"

text \<open>
  Modelled from the spec: appending to the bounded history (the container and the code
  that fills it are in \<open>state.py\<close>). The new entry goes to the end; what is beyond the
  capacity is dropped from the front.
\<close>

definition history_append :: "nat \<Rightarrow> 'a \<Rightarrow> 'a list \<Rightarrow> 'a list" where
  "history_append cap x xs = (let ys = xs @ [x] in drop (length ys - cap) ys)"

text \<open>Modelled from the spec: the state store records a message in its history.\<close>

definition store_message :: "json \<Rightarrow> connection \<Rightarrow> connection" where
  "store_message m conn =
     conn\<lparr>messages := history_append (nat (max_messages conn)) m (messages conn)\<rparr>"

text \<open>
  What a coroutine callback does when it is run, as far as \<open>_run_event\<close> sees: it
  returns or it raises. What user code does to the client on its own account (sending
  a message, closing the session) is not part of this model, and a callback runs in one
  piece.
\<close>

datatype outcome = Returns | Raises exn

datatype task_status = Pending | Finished | Failed exn | Cancelled

text \<open>
  \<open>ws\<close> is the websocket object (\<open>None\<close> as \<open>__init__\<close> leaves it), holding the gateway
  it was opened to. \<open>u_is_logged_in\<close> and \<open>keep_alive\<close> are attributes \<open>__init__\<close> does
  not assign. \<open>handlers\<close> are the synchronous \<open>handle_<event>\<close> methods a subclass
  defines, each acting on the state store; \<open>callbacks\<close> are the coroutine attributes
  \<open>on_<event>\<close> registered on the instance (among them an override of \<open>on_error\<close>).
  \<open>tasks\<close> is the event loop's table of the tasks this client created; a task's
  identity is its index.
\<close>

record client =
  ws :: "json option"
  token :: json
  gateway :: json
  headers :: "string \<rightharpoonup> json"
  u_closed :: bool
  u_is_logged_in :: "bool option"
  keep_alive :: "nat option"
  connection :: connection
  handlers :: "string \<rightharpoonup> (args \<Rightarrow> connection \<Rightarrow> exn option \<times> connection)"
  callbacks :: "string \<rightharpoonup> (args \<Rightarrow> outcome)"
  tasks :: "(coro \<times> task_status) list"
  trace :: "effect list"

text \<open>
  The parsers of the state store, \<open>ConnectionState.parse_<event>\<close>: code of the
  repository that is not among the sources, taken as a parameter. A parser may do
  anything to the client (it calls back into \<open>dispatch\<close>).
\<close>

type_synonym parsers = "string \<rightharpoonup> (json \<Rightarrow> client \<Rightarrow> (exn + unit) \<times> client)"

definition emit :: "effect \<Rightarrow> client \<Rightarrow> client" where
  "emit e c = c\<lparr>trace := trace c @ [e]\<rparr>"

subsection \<open>\<open>Client.__init__\<close>\<close>

definition capacity :: "int option \<Rightarrow> int" where
  "capacity max_messages' =
     (case max_messages' of
        None \<Rightarrow> 5000
      | Some n \<Rightarrow> if n < 100 then 5000 else n)"

definition init :: "int option \<Rightarrow> client" where
  "init max_messages' =
     \<lparr>ws = None,
      token = JNull,
      gateway = JNull,
      headers = [''content-type'' \<mapsto> JStr ''application/json''],
      u_closed = False,
      u_is_logged_in = None,
      keep_alive = None,
      connection = \<lparr>email = None, max_messages = capacity max_messages', messages = []\<rparr>,
      handlers = Map.empty,
      callbacks = Map.empty,
      tasks = [],
      trace = []\<rparr>"

subsection \<open>Tasks\<close>

text \<open>
  Modelled from the spec: \<open>utils.create_task\<close> (\<open>utils.py\<close> is not among the sources)
  schedules the coroutine on the event loop and returns at once with the task; the
  coroutine's body does not start before the caller suspends.
\<close>

definition create_task :: "coro \<Rightarrow> client \<Rightarrow> nat \<times> client" where
  "create_task co c =
     (length (tasks c), c\<lparr>tasks := tasks c @ [(co, Pending)], trace := trace c @ [CreateTask co]\<rparr>)"

text \<open>\<open>Task.cancel()\<close>: a task that has not finished is cancelled.\<close>

definition cancel :: "nat \<Rightarrow> client \<Rightarrow> client" where
  "cancel k c =
     (let c1 = emit (CancelTask k) c in
      if k < length (tasks c1) \<and> snd (tasks c1 ! k) = Pending
      then c1\<lparr>tasks := (tasks c1)[k := (fst (tasks c1 ! k), Cancelled)]\<rparr>
      else c1)"

definition set_status :: "nat \<Rightarrow> task_status \<Rightarrow> client \<Rightarrow> client" where
  "set_status k s c = c\<lparr>tasks := (tasks c)[k := (fst (tasks c ! k), s)]\<rparr>"

subsection \<open>\<open>on_error\<close>, \<open>_run_event\<close>, \<open>dispatch\<close>\<close>

text \<open>How Python binds the parameter \<open>event_method\<close> of \<open>on_error(self, event_method,
  *args, **kwargs)\<close>.\<close>

definition bind_event_method :: "args \<Rightarrow> exn + json" where
  "bind_event_method a =
     (case fst a of
        x # rest \<Rightarrow> if map_of (snd a) ''event_method'' = None then Inr x else Inl TypeError
      | [] \<Rightarrow> (case map_of (snd a) ''event_method'' of None \<Rightarrow> Inl TypeError | Some x \<Rightarrow> Inr x))"

text \<open>The method \<open>Client.on_error\<close>. \<open>exc\<close> is the exception being handled when it runs,
  which is what \<open>traceback.print_exc()\<close> prints.\<close>

definition on_error :: "exn option \<Rightarrow> args \<Rightarrow> client \<Rightarrow> (exn + unit) \<times> client" where
  "on_error exc a c =
     (case bind_event_method a of
        Inl e \<Rightarrow> (Inl e, c)
      | Inr event_method \<Rightarrow> (Inr (), emit (PrintExc exc) (emit (PrintIgnoring event_method) c)))"

text \<open>\<open>hasattr(self, name)\<close> for a name that starts with \<open>on_\<close>: an attribute registered on
  the instance, or the method \<open>on_error\<close> of the class.\<close>

definition has_callback :: "client \<Rightarrow> string \<Rightarrow> bool" where
  "has_callback c name = (name = ''on_error'' \<or> callbacks c name \<noteq> None)"

text \<open>\<open>yield from getattr(self, name)(*args, **kwargs)\<close>: the attribute on the instance
  shadows the method of the class.\<close>

definition call_callback :: "string \<Rightarrow> exn option \<Rightarrow> args \<Rightarrow> client \<Rightarrow> (exn + unit) \<times> client" where
  "call_callback name exc a c =
     (case callbacks c name of
        Some f \<Rightarrow>
          (case f a of
             Returns \<Rightarrow> (Inr (), emit (RunCallback name a) c)
           | Raises e \<Rightarrow> (Inl e, emit (RunCallback name a) c))
      | None \<Rightarrow> if name = ''on_error'' then on_error exc a c else (Inl AttributeError, c))"

definition run_event :: "string \<Rightarrow> args \<Rightarrow> client \<Rightarrow> (exn + unit) \<times> client" where
  "run_event event a c =
     (case call_callback event None a c of
        (Inr u, c1) \<Rightarrow> (Inr u, c1)
      | (Inl e, c1) \<Rightarrow>
          if is_Exception e
          then call_callback ''on_error'' (Some e) (JStr event # fst a, snd a) c1
          else (Inl e, c1))"

definition dispatch :: "string \<Rightarrow> args \<Rightarrow> client \<Rightarrow> (exn + unit) \<times> client" where
  "dispatch event a c0 =
     (let c1 = emit (Log Debug (DispatchingEvent event)) c0;
          method = ''on_'' @ event;
          handler = ''handle_'' @ event;
          (raised, c2) =
            (case handlers c1 handler of
               None \<Rightarrow> (None, c1)
             | Some h \<Rightarrow>
                 (let c' = emit (CallHandler handler a) c1;
                      (r, conn') = h a (connection c')
                  in (r, c'\<lparr>connection := conn'\<rparr>)))
      in case raised of
           Some e \<Rightarrow> (Inl e, c2)
         | None \<Rightarrow>
             if has_callback c2 method
             then (Inr (), snd (create_task (RunEvent method a) c2))
             else (Inr (), c2))"

subsection \<open>\<open>keep_alive_handler\<close>\<close>

definition ws_send :: "json \<Rightarrow> client \<Rightarrow> (exn + unit) \<times> client" where
  "ws_send payload c =
     (case ws c of
        None \<Rightarrow> (Inl AttributeError, c)
      | Some w \<Rightarrow> (Inr (), emit (WsSend payload) c))"

definition heartbeat :: "int \<Rightarrow> json" where
  "heartbeat now = JObj [(''op'', JInt 1), (''d'', JInt now)]"

text \<open>
  One pass of the loop of \<open>keep_alive_handler(interval)\<close>, from its test to the end of
  its sleep; \<open>now\<close> is what \<open>int(time.time())\<close> returns in this pass. The result says
  whether the loop goes on.
\<close>

definition keep_alive_pass :: "rat \<Rightarrow> int \<Rightarrow> client \<Rightarrow> (exn + bool) \<times> client" where
  "keep_alive_pass secs now c =
     (if u_closed c then (Inr False, c)
      else
        (let payload = heartbeat now;
             c1 = emit (Log Debug (KeepingAlive now)) c
         in case ws_send payload c1 of
              (Inl e, c2) \<Rightarrow> (Inl e, c2)
            | (Inr u, c2) \<Rightarrow> (Inr True, emit (Sleep secs) c2)))"

text \<open>The loop run on its own for as many passes as there are clock readings.\<close>

fun keep_alive_handler :: "rat \<Rightarrow> int list \<Rightarrow> client \<Rightarrow> (exn + bool) \<times> client" where
  "keep_alive_handler secs [] c = (Inr True, c)"
| "keep_alive_handler secs (now # later) c =
     (case keep_alive_pass secs now c of
        (Inr True, c1) \<Rightarrow> keep_alive_handler secs later c1
      | r \<Rightarrow> r)"

text \<open>
  Modelled from the spec: the event loop resumes task \<open>k\<close> (asyncio is not among the
  sources). A \<open>_run_event\<close> task runs to its end, a heartbeat task for one pass of its
  loop. Whatever the coroutine raises ends up in the task, not in the caller; a task
  that is finished or cancelled is not resumed.
\<close>

definition activate :: "nat \<Rightarrow> int \<Rightarrow> client \<Rightarrow> client" where
  "activate k now c =
     (if k < length (tasks c) \<and> snd (tasks c ! k) = Pending then
        (case fst (tasks c ! k) of
           RunEvent event a \<Rightarrow>
             (case run_event event a c of
                (Inl e, c1) \<Rightarrow> set_status k (Failed e) c1
              | (Inr u, c1) \<Rightarrow> set_status k Finished c1)
         | KeepAliveHandler secs \<Rightarrow>
             (case keep_alive_pass secs now c of
                (Inl e, c1) \<Rightarrow> set_status k (Failed e) c1
              | (Inr True, c1) \<Rightarrow> c1
              | (Inr False, c1) \<Rightarrow> set_status k Finished c1))
      else c)"

fun activate_all :: "(nat \<times> int) list \<Rightarrow> client \<Rightarrow> client" where
  "activate_all [] c = c"
| "activate_all ((k, now) # later) c = activate_all later (activate k now c)"

subsection \<open>\<open>received_message\<close>\<close>

definition known_events :: "string list" where
  "known_events =
     [''READY'', ''MESSAGE_CREATE'', ''MESSAGE_DELETE'',
      ''MESSAGE_UPDATE'', ''PRESENCE_UPDATE'', ''USER_UPDATE'',
      ''CHANNEL_DELETE'', ''CHANNEL_UPDATE'', ''CHANNEL_CREATE'',
      ''GUILD_MEMBER_ADD'', ''GUILD_MEMBER_REMOVE'',
      ''GUILD_MEMBER_UPDATE'', ''GUILD_CREATE'', ''GUILD_DELETE'',
      ''GUILD_ROLE_CREATE'', ''GUILD_ROLE_DELETE'', ''TYPING_START'',
      ''GUILD_ROLE_UPDATE'', ''VOICE_STATE_UPDATE'']"

text \<open>The lines \<open>interval = data['heartbeat_interval'] / 1000.0\<close> and \<open>self.keep_alive =
  utils.create_task(self.keep_alive_handler(interval), loop=self.loop)\<close>.\<close>

definition start_keep_alive :: "json \<Rightarrow> client \<Rightarrow> (exn + unit) \<times> client" where
  "start_keep_alive data c =
     (case subscript data ''heartbeat_interval'' of
        Inl e \<Rightarrow> (Inl e, c)
      | Inr ms \<Rightarrow>
          (case div_1000 ms of
             Inl e \<Rightarrow> (Inl e, c)
           | Inr secs \<Rightarrow>
               (let (k, c1) = create_task (KeepAliveHandler secs) c
                in (Inr (), c1\<lparr>keep_alive := Some k\<rparr>))))"

text \<open>The last statement of \<open>received_message\<close>: the parser of a known event, if the
  state store has one.\<close>

definition call_parser :: "parsers \<Rightarrow> json \<Rightarrow> json \<Rightarrow> client \<Rightarrow> (exn + unit) \<times> client" where
  "call_parser P event data c =
     (case event of
        JStr name \<Rightarrow>
          if name \<in> set known_events then
            (let parser = ''parse_'' @ lower name in
             case P parser of
               None \<Rightarrow> (Inr (), c)
             | Some p \<Rightarrow> p data (emit (CallParser parser data) c))
          else (Inr (), emit (Log Info (UnhandledEvent event)) c)
      | _ \<Rightarrow> (Inr (), emit (Log Info (UnhandledEvent event)) c))"

definition received_message :: "parsers \<Rightarrow> json \<Rightarrow> client \<Rightarrow> (exn + unit) \<times> client" where
  "received_message P msg c0 =
     (let c1 = emit (Log Debug (WebSocketEvent msg)) c0 in
      case dispatch ''socket_response'' ([msg], []) c1 of
        (Inl e, c2) \<Rightarrow> (Inl e, c2)
      | (Inr u, c2) \<Rightarrow>
          (case py_get msg ''op'' of
             Inl e \<Rightarrow> (Inl e, c2)
           | Inr op \<Rightarrow>
               (case py_get msg ''d'' of
                  Inl e \<Rightarrow> (Inl e, c2)
                | Inr data \<Rightarrow>
                    if ne_zero op then (Inr (), emit (Log Info (UnhandledOp op)) c2)
                    else
                      (case py_get msg ''t'' of
                         Inl e \<Rightarrow> (Inl e, c2)
                       | Inr event \<Rightarrow>
                           (case (if event = JStr ''READY'' then start_keep_alive data c2
                                  else (Inr (), c2)) of
                              (Inl e, c3) \<Rightarrow> (Inl e, c3)
                            | (Inr u, c3) \<Rightarrow> call_parser P event data c3)))))"

subsection \<open>\<open>close\<close>, \<open>login\<close>, \<open>logout\<close>\<close>

definition close :: "client \<Rightarrow> (exn + unit) \<times> client" where
  "close c =
     (if u_closed c then (Inr (), c)
      else
        (case ws c of
           None \<Rightarrow> (Inl AttributeError, c)
         | Some w \<Rightarrow>
             (let c1 = emit WsClose c in
              case keep_alive c1 of
                None \<Rightarrow> (Inl AttributeError, c1)
              | Some k \<Rightarrow> (Inr (), (cancel k c1)\<lparr>u_closed := True\<rparr>))))"

text \<open>An HTTP response: its status and what \<open>resp.json()\<close> returns (\<open>None\<close> when the body
  is not JSON, which raises \<open>ValueError\<close>).\<close>

record response =
  status :: int
  body :: "json option"

text \<open>\<open>http\<close> is what the request of the call comes back with: a response, or the
  exception the HTTP session raised.\<close>

definition login :: "string \<Rightarrow> string \<Rightarrow> exn + response \<Rightarrow> client \<Rightarrow> (exn + unit) \<times> client" where
  "login em password http c0 =
     (let payload = JObj [(''email'', JStr em), (''password'', JStr password)];
          c1 = emit (HttpPost LOGIN (Some payload)) c0
      in case http of
           Inl e \<Rightarrow> (Inl e, c1)
         | Inr resp \<Rightarrow>
             (let c2 = emit (Log Debug (RequestReturned ''POST'' LOGIN (status resp))) c1 in
              if status resp = 400
              then (Inl (LoginFailure ''Improper credentials have been passed.''), c2)
              else if status resp \<noteq> 200 then
                (case body resp of
                   None \<Rightarrow> (Inl ValueError, c2)
                 | Some data \<Rightarrow>
                     (case py_get data ''message'' of
                        Inl e \<Rightarrow> (Inl e, c2)
                      | Inr m \<Rightarrow> (Inl (HTTPException (status resp) m), c2)))
              else
                (let c3 = emit (Log Info (LoginStatus (status resp))) c2;
                     c4 = c3\<lparr>connection := (connection c3)\<lparr>email := Some em\<rparr>\<rparr>
                 in case body resp of
                      None \<Rightarrow> (Inl ValueError, c4)
                    | Some b \<Rightarrow>
                        (case subscript b ''token'' of
                           Inl e \<Rightarrow> (Inl e, c4)
                         | Inr t \<Rightarrow>
                             (Inr (),
                              c4\<lparr>token := t,
                                 headers := (headers c4)(''authorization'' \<mapsto> t),
                                 u_is_logged_in := Some True\<rparr>)))))"

definition logout :: "exn + response \<Rightarrow> client \<Rightarrow> (exn + unit) \<times> client" where
  "logout http c0 =
     (let c1 = emit (HttpPost LOGOUT None) c0 in
      case http of
        Inl e \<Rightarrow> (Inl e, c1)
      | Inr resp \<Rightarrow>
          (case close c1 of
             (Inl e, c2) \<Rightarrow> (Inl e, c2)
           | (Inr u, c2) \<Rightarrow>
               (Inr (),
                emit (Log Debug (RequestReturned ''POST'' LOGOUT (status resp)))
                  (c2\<lparr>u_is_logged_in := Some False\<rparr>))))"

subsection \<open>\<open>_get_gateway\<close>, \<open>_make_websocket\<close>, \<open>connect\<close>\<close>

definition get_gateway :: "exn + response \<Rightarrow> client \<Rightarrow> (exn + json) \<times> client" where
  "get_gateway http c0 =
     (let c1 = emit (HttpGet GATEWAY) c0 in
      case http of
        Inl e \<Rightarrow> (Inl e, c1)
      | Inr resp \<Rightarrow>
          if status resp \<noteq> 200 then (Inl GatewayNotFound, c1)
          else
            (case body resp of
               None \<Rightarrow> (Inl ValueError, c1)
             | Some data \<Rightarrow>
                 (case py_get data ''url'' of
                    Inl e \<Rightarrow> (Inl e, c1)
                  | Inr url \<Rightarrow> (Inr url, c1))))"

text \<open>The property \<open>is_logged_in\<close>: it returns \<open>self._is_logged_in\<close>, an attribute that
  only \<open>login\<close> and \<open>logout\<close> assign.\<close>

definition is_logged_in :: "client \<Rightarrow> exn + bool" where
  "is_logged_in c = (case u_is_logged_in c of None \<Rightarrow> Inl AttributeError | Some b \<Rightarrow> Inr b)"

definition identify :: "json \<Rightarrow> string \<Rightarrow> json" where
  "identify tok platform =
     JObj [(''op'', JInt 2),
           (''d'', JObj [(''token'', tok),
                         (''properties'',
                            JObj [(''$os'', JStr platform),
                                  (''$browser'', JStr ''discord.py''),
                                  (''$device'', JStr ''discord.py''),
                                  (''$referrer'', JStr []),
                                  (''$referring_domain'', JStr [])]),
                         (''v'', JInt 3)])]"

text \<open>\<open>platform\<close> is \<open>sys.platform\<close>, \<open>http\<close> the answer to the gateway request,
  \<open>opened\<close> what \<open>websockets.connect\<close> does (\<open>Some e\<close>: it raises \<open>e\<close>).\<close>

definition make_websocket ::
    "string \<Rightarrow> exn + response \<Rightarrow> exn option \<Rightarrow> client \<Rightarrow> (exn + unit) \<times> client" where
  "make_websocket platform http opened c =
     (case is_logged_in c of
        Inl e \<Rightarrow> (Inl e, c)
      | Inr False \<Rightarrow> (Inl (ClientException ''You must be logged in to connect''), c)
      | Inr True \<Rightarrow>
          (case get_gateway http c of
             (Inl e, c1) \<Rightarrow> (Inl e, c1)
           | (Inr url, c1) \<Rightarrow>
               (let c2 = emit (WsConnect url) (c1\<lparr>gateway := url\<rparr>) in
                case opened of
                  Some e \<Rightarrow> (Inl e, c2)
                | None \<Rightarrow>
                    (let c3 = emit (Log Info (CreatedWebsocket url)) (c2\<lparr>ws := Some url\<rparr>) in
                     case ws_send (identify (token c3) platform) c3 of
                       (Inl e, c4) \<Rightarrow> (Inl e, c4)
                     | (Inr u, c4) \<Rightarrow> (Inr (), emit (Log Info SentInitialPayload) c4)))))"

text \<open>
  What \<open>self.ws.recv()\<close> returns, after \<open>json.loads\<close>: a frame, text that is not JSON, or
  \<open>None\<close> when the connection is closed.
\<close>

datatype incoming = Frame json | Malformed | EndOfStream

datatype loop_state = Exited | Raised exn | AwaitingRecv

text \<open>
  The loop of \<open>connect\<close>. Each \<open>recv()\<close> is a suspension: the event loop resumes the
  tasks listed with it (task and clock reading) before the frame arrives. When the
  list of arrivals is used up and the loop has not ended, it is waiting in \<open>recv()\<close>.
\<close>

fun receive_loop ::
    "parsers \<Rightarrow> ((nat \<times> int) list \<times> incoming) list \<Rightarrow> client \<Rightarrow> loop_state \<times> client" where
  "receive_loop P [] c = (if u_closed c then (Exited, c) else (AwaitingRecv, c))"
| "receive_loop P ((resumed, arrival) # later) c =
     (if u_closed c then (Exited, c)
      else
        (let c1 = activate_all resumed c in
         case arrival of
           EndOfStream \<Rightarrow>
             (case close c1 of
                (Inl e, c2) \<Rightarrow> (Raised e, c2)
              | (Inr u, c2) \<Rightarrow> (Exited, c2))
         | Malformed \<Rightarrow> (Raised ValueError, c1)
         | Frame msg \<Rightarrow>
             (case received_message P msg c1 of
                (Inl e, c2) \<Rightarrow> (Raised e, c2)
              | (Inr u, c2) \<Rightarrow> receive_loop P later c2)))"

definition connect ::
    "parsers \<Rightarrow> string \<Rightarrow> exn + response \<Rightarrow> exn option \<Rightarrow>
     ((nat \<times> int) list \<times> incoming) list \<Rightarrow> client \<Rightarrow> loop_state \<times> client" where
  "connect P platform http opened arrivals c =
     (case make_websocket platform http opened c of
        (Inl e, c1) \<Rightarrow> (Raised e, c1)
      | (Inr u, c1) \<Rightarrow> receive_loop P arrivals c1)"

subsection \<open>Predicates the properties are stated with\<close>

text \<open>A heartbeat frame on the wire: a control frame whose operation is 1.\<close>

definition is_heartbeat :: "effect \<Rightarrow> bool" where
  "is_heartbeat e = (case e of WsSend p \<Rightarrow> py_get p ''op'' = Inr (JInt 1) | _ \<Rightarrow> False)"

text \<open>
  What the parsers of the state store are assumed to leave alone: they mutate the
  store and call \<open>dispatch\<close>, which creates tasks; they do not touch the websocket, the
  closed flag or the heartbeat task, and they remove no task.
\<close>

definition respects_tasks :: "parsers \<Rightarrow> bool" where
  "respects_tasks P =
     (\<forall>name p data c. P name = Some p \<longrightarrow>
        ws (snd (p data c)) = ws c \<and>
        u_closed (snd (p data c)) = u_closed c \<and>
        keep_alive (snd (p data c)) = keep_alive c \<and>
        take (length (tasks c)) (tasks (snd (p data c))) = tasks c)"

subsection \<open>Example inputs\<close>

text \<open>
  A client that has logged in and opened its websocket (\<open>demo_session_reached\<close> below
  runs the calls that lead there), its trace started afresh.
\<close>

definition demo_session :: client where
  "demo_session =
     \<lparr>ws = Some (JStr ''wss://gateway.example''),
      token = JStr ''abc'',
      gateway = JStr ''wss://gateway.example'',
      headers = [''content-type'' \<mapsto> JStr ''application/json'',
                 ''authorization'' \<mapsto> JStr ''abc''],
      u_closed = False,
      u_is_logged_in = Some True,
      keep_alive = None,
      connection = \<lparr>email = Some ''user@example.com'', max_messages = 5000, messages = []\<rparr>,
      handlers = Map.empty,
      callbacks = Map.empty,
      tasks = [],
      trace = []\<rparr>"

text \<open>The same client after \<open>on_socket_response\<close> has been registered on it.\<close>

definition demo_listener :: client where
  "demo_listener = demo_session\<lparr>callbacks := [''on_socket_response'' \<mapsto> (\<lambda>a. Returns)]\<rparr>"

text \<open>A client of a subclass whose \<open>handle_socket_response\<close> keeps every raw frame.\<close>

definition demo_recorder :: client where
  "demo_recorder =
     demo_session\<lparr>handlers :=
       [''handle_socket_response'' \<mapsto> (\<lambda>a conn. (None, store_message (JArr (fst a)) conn))]\<rparr>"

text \<open>A client with a state handler for the event \<open>message\<close> and a callback for it that
  fails.\<close>

definition demo_chat :: client where
  "demo_chat =
     demo_session\<lparr>handlers :=
                    [''handle_message'' \<mapsto> (\<lambda>a conn. (None, store_message (JArr (fst a)) conn))],
                  callbacks := [''on_message'' \<mapsto> (\<lambda>a. Raises (UserError ''boom''))]\<rparr>"

text \<open>A client whose callback for \<open>message\<close> calls \<open>sys.exit()\<close>.\<close>

definition demo_exiting :: client where
  "demo_exiting =
     demo_session\<lparr>callbacks := [''on_message'' \<mapsto> (\<lambda>a. Raises (SystemExiting ''SystemExit''))]\<rparr>"

definition ready_frame :: "int \<Rightarrow> json" where
  "ready_frame ms =
     JObj [(''op'', JInt 0), (''t'', JStr ''READY''),
           (''d'', JObj [(''heartbeat_interval'', JInt ms)])]"

text \<open>A frame that is not a dispatch: operation 11.\<close>

definition ack_frame :: json where
  "ack_frame = JObj [(''op'', JInt 11), (''d'', JNull)]"

text \<open>A parser table with a \<open>parse_ready\<close> that announces the event \<open>ready\<close>.\<close>

definition demo_parsers :: parsers where
  "demo_parsers = [''parse_ready'' \<mapsto> (\<lambda>data c. dispatch ''ready'' ([], []) c)]"

text \<open>
  The logged-in client after a first \<open>READY\<close> frame with a heartbeat interval of 45000
  milliseconds (\<open>demo_beating_reached\<close> below), its trace started afresh: the heartbeat
  is task 0.
\<close>

definition demo_beating :: client where
  "demo_beating = demo_session\<lparr>keep_alive := Some 0, tasks := [(KeepAliveHandler 45, Pending)]\<rparr>"

section \<open>Properties\<close>

subsection \<open>The message history\<close>

lemma history_append_drop:
  "history_append cap x (drop (length xs - cap) xs) = drop (length (xs @ [x]) - cap) (xs @ [x])"
proof (cases "length xs < cap")
  case True
  then show ?thesis by (simp add: history_append_def Let_def)
next
  case False
  then show ?thesis by (simp add: history_append_def Let_def Suc_diff_le)
qed

lemma max_messages_store: "max_messages (store_message m conn) = max_messages conn"
  by (simp add: store_message_def)

lemma messages_store:
  "messages (store_message m conn) = history_append (nat (max_messages conn)) m (messages conn)"
  by (simp add: store_message_def)

lemma max_messages_store_all:
  "max_messages (foldl (\<lambda>conn m. store_message m conn) conn ms) = max_messages conn"
  by (induction ms arbitrary: conn) (simp_all add: max_messages_store)

lemma messages_store_all:
  assumes "messages conn = []"
  shows "messages (foldl (\<lambda>conn m. store_message m conn) conn ms) =
     drop (length ms - nat (max_messages conn)) ms"
proof (induction ms rule: rev_induct)
  case Nil
  from assms show ?case by simp
next
  case (snoc m ms)
  then show ?case
    using history_append_drop [of "nat (max_messages conn)" m ms]
    by (simp add: messages_store max_messages_store_all)
qed

text \<open>
  C8. The capacity the constructor hands to the state store is 5000 when the configured
  \<open>max_messages\<close> is absent or below 100 and the configured value otherwise. The
  history starts empty; after any sequence \<open>ms\<close> of messages has been stored it never
  holds more than the capacity, and it holds exactly the most recent ones in arrival
  order: the oldest are evicted first.
\<close>

theorem message_history_bounded_fifo:
  "max_messages (connection (init configured)) =
     (case configured of None \<Rightarrow> 5000 | Some n \<Rightarrow> if n < 100 then 5000 else n) \<and>
   messages (connection (init configured)) = [] \<and>
   length (messages (foldl (\<lambda>conn m. store_message m conn) (connection (init configured)) ms))
     \<le> nat (max_messages (connection (init configured))) \<and>
   messages (foldl (\<lambda>conn m. store_message m conn) (connection (init configured)) ms) =
     drop (length ms - nat (max_messages (connection (init configured)))) ms"
proof -
  have empty: "messages (connection (init configured)) = []"
    by (simp add: init_def)
  have cap: "max_messages (connection (init configured)) =
      (case configured of None \<Rightarrow> 5000 | Some n \<Rightarrow> if n < 100 then 5000 else n)"
    by (simp add: init_def capacity_def)
  have fifo: "messages (foldl (\<lambda>conn m. store_message m conn) (connection (init configured)) ms) =
      drop (length ms - nat (max_messages (connection (init configured)))) ms"
    using empty by (rule messages_store_all)
  have "length (drop (length ms - nat (max_messages (connection (init configured)))) ms)
      \<le> nat (max_messages (connection (init configured)))"
    by simp
  with empty cap fifo show ?thesis by simp
qed

subsection \<open>Login\<close>

lemma login_failure_iff:
  "(\<exists>s. fst (login em password (Inr resp) c) = Inl (LoginFailure s)) \<longleftrightarrow> status resp = 400"
  by (cases "body resp"; cases "the (body resp)")
     (auto simp: login_def Let_def split: option.splits sum.splits)

lemma login_other_status:
  assumes "status resp \<noteq> 400" and "status resp \<noteq> 200" and "body resp = Some (JObj kvs)"
  shows "fst (login em password (Inr resp) c) =
           Inl (HTTPException (status resp) (dict_get kvs ''message''))"
  using assms by (simp add: login_def Let_def)

text \<open>
  C4. A login that is answered with status 400 raises \<open>LoginFailure\<close> and changes
  nothing of the client but the trace of what it did (the request and a log record):
  the token, the stored email, the logged-in flag and the headers are as before. No
  response with another status makes \<open>login\<close> raise \<open>LoginFailure\<close>.
\<close>

theorem login_rejected_leaves_state:
  assumes "status resp = 400"
  shows "fst (login em password (Inr resp) c) =
           Inl (LoginFailure ''Improper credentials have been passed.'') \<and>
         token (snd (login em password (Inr resp) c)) = token c \<and>
         email (connection (snd (login em password (Inr resp) c))) = email (connection c) \<and>
         u_is_logged_in (snd (login em password (Inr resp) c)) = u_is_logged_in c \<and>
         headers (snd (login em password (Inr resp) c)) = headers c \<and>
         snd (login em password (Inr resp) c) =
           c\<lparr>trace := trace c @
               [HttpPost LOGIN (Some (JObj [(''email'', JStr em), (''password'', JStr password)])),
                Log Debug (RequestReturned ''POST'' LOGIN 400)]\<rparr> \<and>
         (\<forall>other s. status other \<noteq> 400 \<longrightarrow>
            fst (login em password (Inr other) c) \<noteq> Inl (LoginFailure s))"
proof -
  have "\<forall>other s. status other \<noteq> 400 \<longrightarrow>
      fst (login em password (Inr other) c) \<noteq> Inl (LoginFailure s)"
    using login_failure_iff [of em password _ c] by blast
  with assms show ?thesis
    by (simp add: login_def Let_def emit_def)
qed

theorem login_rejected_leaves_state_witness:
  "status \<lparr>status = 400, body = None\<rparr> = 400 \<and>
   fst (login ''user@example.com'' ''wrong'' (Inr \<lparr>status = 400, body = None\<rparr>) (init None)) =
     Inl (LoginFailure ''Improper credentials have been passed.'') \<and>
   token (snd (login ''user@example.com'' ''wrong'' (Inr \<lparr>status = 400, body = None\<rparr>) (init None)))
     = JNull \<and>
   u_is_logged_in
     (snd (login ''user@example.com'' ''wrong'' (Inr \<lparr>status = 400, body = None\<rparr>) (init None)))
     = None"
  using login_rejected_leaves_state
    [of "\<lparr>status = 400, body = None\<rparr>" "''user@example.com''" "''wrong''" "init None"]
  by (simp add: init_def)

subsection \<open>Closing and connecting\<close>

text \<open>
  C10. On a client that never opened a websocket and never started a heartbeat task,
  \<open>close\<close> raises \<open>AttributeError\<close> when the client is not closed already, and leaves the
  client as it was: \<open>_closed\<close> is still \<open>False\<close>.
\<close>

theorem close_before_connect_raises:
  assumes "ws c = None" and "keep_alive c = None" and "\<not> u_closed c"
  shows "fst (close c) = Inl AttributeError \<and> snd (close c) = c \<and> \<not> u_closed (snd (close c))"
  using assms by (simp add: close_def)

theorem close_before_connect_raises_witness:
  "ws (init None) = None \<and> keep_alive (init None) = None \<and> \<not> u_closed (init None) \<and>
   fst (close (init None)) = Inl AttributeError \<and> snd (close (init None)) = init None"
  using close_before_connect_raises [of "init None"]
  by (simp add: init_def)

lemma connect_not_logged_in:
  assumes "u_is_logged_in c \<noteq> Some True"
  shows "snd (connect P platform http opened arrivals c) = c \<and>
         fst (connect P platform http opened arrivals c) =
           (case u_is_logged_in c of
              None \<Rightarrow> Raised AttributeError
            | Some b \<Rightarrow> Raised (ClientException ''You must be logged in to connect''))"
  using assms
  by (cases "u_is_logged_in c") (auto simp: connect_def make_websocket_def is_logged_in_def)

text \<open>
  C1. On a client as the constructor leaves it (no login was ever made), \<open>connect\<close>
  raises \<open>AttributeError\<close>, not \<open>ClientException\<close>: \<open>__init__\<close> does not assign
  \<open>_is_logged_in\<close>, so the property \<open>is_logged_in\<close> fails before the check that would
  raise \<open>ClientException\<close>. Nothing is sent or requested: the client, and with it the
  trace, is unchanged.
\<close>

theorem connect_on_fresh_client:
  "connect P platform http opened arrivals (init configured) =
     (Raised AttributeError, init configured) \<and>
   filter is_network_io (trace (snd (connect P platform http opened arrivals (init configured)))) = []"
  by (simp add: connect_def make_websocket_def is_logged_in_def init_def)

subsection \<open>The example inputs are reachable\<close>

lemmas demo_defs = demo_listener_def demo_recorder_def demo_chat_def demo_exiting_def
  demo_session_def ready_frame_def ack_frame_def demo_parsers_def demo_beating_def

lemmas run_defs = make_websocket_def login_def init_def capacity_def is_logged_in_def
  get_gateway_def emit_def ws_send_def identify_def Let_def dict_get_def received_message_def
  dispatch_def has_callback_def create_task_def start_keep_alive_def float_overflow_def
  call_parser_def known_events_def run_event_def call_callback_def on_error_def
  bind_event_method_def activate_def set_status_def keep_alive_pass_def heartbeat_def
  close_def cancel_def store_message_def history_append_def is_heartbeat_def

lemma lower_READY: "lower ''READY'' = ''ready''"
  by code_simp

lemma demo_session_reached:
  "(snd (make_websocket ''linux''
            (Inr \<lparr>status = 200, body = Some (JObj [(''url'', JStr ''wss://gateway.example'')])\<rparr>)
            None
            (snd (login ''user@example.com'' ''secret''
                    (Inr \<lparr>status = 200, body = Some (JObj [(''token'', JStr ''abc'')])\<rparr>)
                    (init None)))))\<lparr>trace := []\<rparr> = demo_session"
  by (simp add: demo_defs run_defs)

lemma demo_beating_reached:
  "fst (received_message demo_parsers (ready_frame 45000) demo_session) = Inr () \<and>
   (snd (received_message demo_parsers (ready_frame 45000) demo_session))\<lparr>trace := []\<rparr> =
     demo_beating"
  by (simp add: demo_defs run_defs lower_READY)

subsection \<open>Dispatch\<close>

lemma dispatch_no_handler:
  assumes "handlers c (''handle_'' @ event) = None"
  shows "dispatch event a c =
     (if has_callback c (''on_'' @ event)
      then (Inr (), c\<lparr>tasks := tasks c @ [(RunEvent (''on_'' @ event) a, Pending)],
                      trace := trace c @ [Log Debug (DispatchingEvent event),
                                          CreateTask (RunEvent (''on_'' @ event) a)]\<rparr>)
      else (Inr (), c\<lparr>trace := trace c @ [Log Debug (DispatchingEvent event)]\<rparr>))"
  using assms by (simp add: dispatch_def Let_def emit_def create_task_def has_callback_def)

lemma dispatch_frame:
  "ws (snd (dispatch event a c)) = ws c \<and>
   u_closed (snd (dispatch event a c)) = u_closed c \<and>
   keep_alive (snd (dispatch event a c)) = keep_alive c \<and>
   take (length (tasks c)) (tasks (snd (dispatch event a c))) = tasks c"
  by (auto simp: dispatch_def Let_def emit_def create_task_def
           split: option.splits prod.splits)

text \<open>
  C3. When the client has both a handler \<open>handle_<event>\<close> and a callback
  \<open>on_<event>\<close> for a dispatched event, \<open>dispatch\<close> calls the handler first and lets it
  run to its end. If the handler returns, the state it leaves is the state in which the
  callback's task is created, and the task is only created (it is pending, the
  callback has not run): \<open>dispatch\<close> returns at once. If the handler raises, \<open>dispatch\<close>
  raises the same exception and no task is created. So the callback is never scheduled
  before the handler of the same dispatch is done.
\<close>

theorem dispatch_handler_before_callback:
  assumes "handlers c (''handle_'' @ event) = Some h" and "has_callback c (''on_'' @ event)"
  shows "dispatch event a c =
    (case h a (connection c) of
       (None, conn') \<Rightarrow>
         (Inr (),
          c\<lparr>connection := conn',
            tasks := tasks c @ [(RunEvent (''on_'' @ event) a, Pending)],
            trace := trace c @ [Log Debug (DispatchingEvent event),
                                CallHandler (''handle_'' @ event) a,
                                CreateTask (RunEvent (''on_'' @ event) a)]\<rparr>)
     | (Some e, conn') \<Rightarrow>
         (Inl e,
          c\<lparr>connection := conn',
            trace := trace c @ [Log Debug (DispatchingEvent event),
                                CallHandler (''handle_'' @ event) a]\<rparr>))"
  using assms
  by (simp add: dispatch_def Let_def emit_def create_task_def has_callback_def
           split: prod.splits option.splits)

theorem dispatch_handler_before_callback_witness:
  "handlers demo_chat (''handle_'' @ ''message'') \<noteq> None \<and>
   has_callback demo_chat (''on_'' @ ''message'') \<and>
   fst (dispatch ''message'' ([JStr ''hello''], []) demo_chat) = Inr () \<and>
   messages (connection (snd (dispatch ''message'' ([JStr ''hello''], []) demo_chat))) =
     [JArr [JStr ''hello'']] \<and>
   tasks (snd (dispatch ''message'' ([JStr ''hello''], []) demo_chat)) =
     [(RunEvent ''on_message'' ([JStr ''hello''], []), Pending)] \<and>
   trace (snd (dispatch ''message'' ([JStr ''hello''], []) demo_chat)) =
     [Log Debug (DispatchingEvent ''message''),
      CallHandler ''handle_message'' ([JStr ''hello''], []),
      CreateTask (RunEvent ''on_message'' ([JStr ''hello''], []))]"
  using dispatch_handler_before_callback
    [of demo_chat "''message''" "\<lambda>a conn. (None, store_message (JArr (fst a)) conn)"
        "([JStr ''hello''], [])"]
  by (simp add: demo_defs run_defs)

subsection \<open>Failing callbacks\<close>

lemma call_callback_quiet:
  "u_closed (snd (call_callback name exc a c)) = u_closed c \<and>
   filter is_heartbeat (trace (snd (call_callback name exc a c))) = filter is_heartbeat (trace c)"
  by (simp add: call_callback_def on_error_def emit_def is_heartbeat_def
           split: option.splits outcome.splits sum.splits)

lemma run_event_quiet:
  "u_closed (snd (run_event name a c)) = u_closed c \<and>
   filter is_heartbeat (trace (snd (run_event name a c))) = filter is_heartbeat (trace c)"
proof (cases "call_callback name None a c")
  case (Pair r c1)
  with call_callback_quiet [of name None a c]
  have c1: "u_closed c1 = u_closed c"
      "filter is_heartbeat (trace c1) = filter is_heartbeat (trace c)"
    by simp_all
  show ?thesis
  proof (cases "\<exists>e. r = Inl e \<and> is_Exception e")
    case True
    then obtain e where "r = Inl e" and "is_Exception e" by blast
    with Pair have "run_event name a c =
        call_callback ''on_error'' (Some e) (JStr name # fst a, snd a) c1"
      by (simp add: run_event_def)
    with c1 call_callback_quiet [of "''on_error''" "Some e" "(JStr name # fst a, snd a)" c1]
    show ?thesis by simp
  next
    case False
    with Pair have "snd (run_event name a c) = c1"
      by (cases r) (auto simp: run_event_def)
    with c1 show ?thesis by simp
  qed
qed

lemma default_on_error:
  assumes "callbacks c ''on_error'' = None" and "map_of kw ''event_method'' = None"
  shows "call_callback ''on_error'' (Some e) (JStr name # pos, kw) c =
     (Inr (), c\<lparr>trace := trace c @ [PrintIgnoring (JStr name), PrintExc (Some e)]\<rparr>)"
  using assms by (simp add: call_callback_def on_error_def bind_event_method_def emit_def)

text \<open>
  C2, as amended. When a registered callback raises an exception that is an instance
  of \<open>Exception\<close>, \<open>_run_event\<close> catches it and calls the \<open>on_error\<close> attribute with the
  name the callback is registered under (\<open>on_<event>\<close>) in front of the original
  positional arguments, and with the original keyword arguments. With the \<open>on_error\<close>
  of the class (and no keyword argument called \<open>event_method\<close>) the call prints
  "Ignoring exception in" with that name and the traceback of the exception, and
  \<open>_run_event\<close> returns normally: the task the event loop resumed finishes, and the
  receive loop goes on with the frame that arrives next.
\<close>

theorem callback_exception_goes_to_on_error:
  assumes "callbacks c name = Some f" and "f a = Raises e" and "is_Exception e"
  shows "run_event name a c =
           call_callback ''on_error'' (Some e) (JStr name # fst a, snd a)
             (emit (RunCallback name a) c) \<and>
         (callbacks c ''on_error'' = None \<and> map_of (snd a) ''event_method'' = None \<longrightarrow>
            run_event name a c =
              (Inr (), c\<lparr>trace := trace c @
                 [RunCallback name a, PrintIgnoring (JStr name), PrintExc (Some e)]\<rparr>) \<and>
            (\<forall>k now P msg later.
               k < length (tasks c) \<and> tasks c ! k = (RunEvent name a, Pending) \<and> \<not> u_closed c \<longrightarrow>
               receive_loop P (([(k, now)], Frame msg) # later) c =
                 (case received_message P msg
                         (c\<lparr>trace := trace c @
                              [RunCallback name a, PrintIgnoring (JStr name), PrintExc (Some e)],
                            tasks := (tasks c)[k := (RunEvent name a, Finished)]\<rparr>) of
                    (Inl e', c2) \<Rightarrow> (Raised e', c2)
                  | (Inr u, c2) \<Rightarrow> receive_loop P later c2)))"
proof -
  from assms have 1: "run_event name a c =
      call_callback ''on_error'' (Some e) (JStr name # fst a, snd a) (emit (RunCallback name a) c)"
    by (simp add: run_event_def call_callback_def)
  have 2: "run_event name a c =
      (Inr (), c\<lparr>trace := trace c @
         [RunCallback name a, PrintIgnoring (JStr name), PrintExc (Some e)]\<rparr>)"
    if "callbacks c ''on_error'' = None" and "map_of (snd a) ''event_method'' = None"
    using that by (simp add: 1 default_on_error emit_def)
  have 3: "receive_loop P (([(k, now)], Frame msg) # later) c =
      (case received_message P msg
              (c\<lparr>trace := trace c @
                   [RunCallback name a, PrintIgnoring (JStr name), PrintExc (Some e)],
                 tasks := (tasks c)[k := (RunEvent name a, Finished)]\<rparr>) of
         (Inl e', c2) \<Rightarrow> (Raised e', c2)
       | (Inr u, c2) \<Rightarrow> receive_loop P later c2)"
    if "callbacks c ''on_error'' = None" and "map_of (snd a) ''event_method'' = None"
      and "k < length (tasks c)" and "tasks c ! k = (RunEvent name a, Pending)" and "\<not> u_closed c"
    for k now P msg later
  proof -
    from that have "activate k now c =
        c\<lparr>trace := trace c @ [RunCallback name a, PrintIgnoring (JStr name), PrintExc (Some e)],
          tasks := (tasks c)[k := (RunEvent name a, Finished)]\<rparr>"
      by (simp add: activate_def 2 set_status_def)
    with that(5) show ?thesis by simp
  qed
  from 1 2 3 show ?thesis by blast
qed

theorem callback_exception_goes_to_on_error_witness:
  "callbacks demo_chat ''on_message'' \<noteq> None \<and>
   is_Exception (UserError ''boom'') \<and>
   run_event ''on_message'' ([JStr ''hello''], []) demo_chat =
     (Inr (), demo_chat\<lparr>trace :=
        [RunCallback ''on_message'' ([JStr ''hello''], []),
         PrintIgnoring (JStr ''on_message''),
         PrintExc (Some (UserError ''boom''))]\<rparr>)"
  using callback_exception_goes_to_on_error
    [of demo_chat "''on_message''" "\<lambda>a. Raises (UserError ''boom'')" "([JStr ''hello''], [])"
        "UserError ''boom''"]
  by (simp add: demo_defs run_defs)

text \<open>
  C2 as it stands fails for an exception outside the \<open>Exception\<close> hierarchy: a
  callback that calls \<open>sys.exit()\<close> leaves \<open>_run_event\<close> with \<open>SystemExit\<close> uncaught,
  \<open>on_error\<close> is not called (nothing is printed), and the task that the dispatch of the
  event created ends with the exception.
\<close>

theorem callback_system_exit_not_caught:
  "run_event ''on_message'' ([JStr ''hello''], []) demo_exiting =
     (Inl (SystemExiting ''SystemExit''),
      demo_exiting\<lparr>trace := [RunCallback ''on_message'' ([JStr ''hello''], [])]\<rparr>) \<and>
   tasks (activate 0 0 (snd (dispatch ''message'' ([JStr ''hello''], []) demo_exiting))) =
     [(RunEvent ''on_message'' ([JStr ''hello''], []), Failed (SystemExiting ''SystemExit''))] \<and>
   trace (activate 0 0 (snd (dispatch ''message'' ([JStr ''hello''], []) demo_exiting))) =
     [Log Debug (DispatchingEvent ''message''),
      CreateTask (RunEvent ''on_message'' ([JStr ''hello''], [])),
      RunCallback ''on_message'' ([JStr ''hello''], [])]"
  by (simp add: demo_defs run_defs)

subsection \<open>Frames\<close>

lemma call_parser_READY:
  "call_parser P (JStr ''READY'') data c =
     (case P ''parse_ready'' of
        None \<Rightarrow> (Inr (), c)
      | Some p \<Rightarrow> p data (emit (CallParser ''parse_ready'' data) c))"
  by (simp add: call_parser_def known_events_def lower_READY Let_def)

lemma start_keep_alive_int:
  assumes "subscript data ''heartbeat_interval'' = Inr (JInt ms)" and "\<not> float_overflow ms"
  shows "start_keep_alive data c =
     (Inr (), c\<lparr>tasks := tasks c @ [(KeepAliveHandler (of_int ms / 1000), Pending)],
                trace := trace c @ [CreateTask (KeepAliveHandler (of_int ms / 1000))],
                keep_alive := Some (length (tasks c))\<rparr>)"
  using assms by (simp add: start_keep_alive_def create_task_def)

lemma received_message_READY:
  assumes "py_get msg ''op'' = Inr op" and "\<not> ne_zero op"
    and "py_get msg ''t'' = Inr (JStr ''READY'')"
    and "py_get msg ''d'' = Inr data"
    and "subscript data ''heartbeat_interval'' = Inr (JInt ms)" and "\<not> float_overflow ms"
    and "dispatch ''socket_response'' ([msg], []) (emit (Log Debug (WebSocketEvent msg)) c) =
           (Inr (), c2)"
    and "c3 = c2\<lparr>tasks := tasks c2 @ [(KeepAliveHandler (of_int ms / 1000), Pending)],
                trace := trace c2 @ [CreateTask (KeepAliveHandler (of_int ms / 1000))],
                keep_alive := Some (length (tasks c2))\<rparr>"
  shows "received_message P msg c = call_parser P (JStr ''READY'') data c3"
  using assms
  by (simp add: received_message_def Let_def start_keep_alive_int)

text \<open>
  C5, as amended. For a dispatch frame that carries the event \<open>READY\<close> and an integer
  \<open>heartbeat_interval\<close> (of a size a float can hold), \<open>received_message\<close> first dispatches
  the raw \<open>socket_response\<close> event for the frame. In the state \<open>c2\<close> that this leaves
  it reads the interval, divides it by 1000 to get seconds, creates the heartbeat task
  with that interval and stores it in \<open>keep_alive\<close>. Only then is the parser of the
  frame, \<open>parse_ready\<close>, called, on a client whose heartbeat task exists already.
\<close>

theorem ready_starts_heartbeat_before_parser:
  assumes "py_get msg ''op'' = Inr op" and "\<not> ne_zero op"
    and "py_get msg ''t'' = Inr (JStr ''READY'')"
    and "py_get msg ''d'' = Inr data"
    and "subscript data ''heartbeat_interval'' = Inr (JInt ms)" and "\<not> float_overflow ms"
    and "dispatch ''socket_response'' ([msg], []) (emit (Log Debug (WebSocketEvent msg)) c) =
           (Inr (), c2)"
  shows "start_keep_alive data c2 =
           (Inr (), c2\<lparr>tasks := tasks c2 @ [(KeepAliveHandler (of_int ms / 1000), Pending)],
                      trace := trace c2 @ [CreateTask (KeepAliveHandler (of_int ms / 1000))],
                      keep_alive := Some (length (tasks c2))\<rparr>) \<and>
         received_message P msg c =
           (case P ''parse_ready'' of
              None \<Rightarrow> (Inr (), snd (start_keep_alive data c2))
            | Some p \<Rightarrow>
                p data (emit (CallParser ''parse_ready'' data) (snd (start_keep_alive data c2))))"
proof -
  from assms(5,6) have 1: "start_keep_alive data c2 =
           (Inr (), c2\<lparr>tasks := tasks c2 @ [(KeepAliveHandler (of_int ms / 1000), Pending)],
                      trace := trace c2 @ [CreateTask (KeepAliveHandler (of_int ms / 1000))],
                      keep_alive := Some (length (tasks c2))\<rparr>)"
    by (rule start_keep_alive_int)
  from assms 1 have "received_message P msg c =
      call_parser P (JStr ''READY'') data (snd (start_keep_alive data c2))"
    by (intro received_message_READY) simp_all
  then have "received_message P msg c =
           (case P ''parse_ready'' of
              None \<Rightarrow> (Inr (), snd (start_keep_alive data c2))
            | Some p \<Rightarrow>
                p data (emit (CallParser ''parse_ready'' data) (snd (start_keep_alive data c2))))"
    by (simp only: call_parser_READY)
  with 1 show ?thesis by (rule conjI)
qed

theorem ready_starts_heartbeat_before_parser_witness:
  "py_get (ready_frame 45000) ''op'' = Inr (JInt 0) \<and> \<not> ne_zero (JInt 0) \<and>
   \<not> float_overflow 45000 \<and>
   fst (received_message demo_parsers (ready_frame 45000) demo_session) = Inr () \<and>
   tasks (snd (received_message demo_parsers (ready_frame 45000) demo_session)) =
     [(KeepAliveHandler 45, Pending)] \<and>
   keep_alive (snd (received_message demo_parsers (ready_frame 45000) demo_session)) = Some 0 \<and>
   trace (snd (received_message demo_parsers (ready_frame 45000) demo_session)) =
     [Log Debug (WebSocketEvent (ready_frame 45000)),
      Log Debug (DispatchingEvent ''socket_response''),
      CreateTask (KeepAliveHandler 45),
      CallParser ''parse_ready'' (JObj [(''heartbeat_interval'', JInt 45000)]),
      Log Debug (DispatchingEvent ''ready'')]"
  using ready_starts_heartbeat_before_parser
    [of "ready_frame 45000" "JInt 0" "JObj [(''heartbeat_interval'', JInt 45000)]" 45000
        demo_session
        "demo_session\<lparr>trace :=
           [Log Debug (WebSocketEvent (ready_frame 45000)),
            Log Debug (DispatchingEvent ''socket_response'')]\<rparr>"
        demo_parsers]
  by (simp add: demo_defs run_defs lower_READY)

text \<open>
  C5 as it stands fails: starting the heartbeat is not the first thing done with
  a \<open>READY\<close> frame. On a client with a registered \<open>on_socket_response\<close>, the callback
  for the frame is scheduled before the heartbeat task is created.
\<close>

theorem ready_callback_scheduled_before_heartbeat:
  "trace (snd (received_message Map.empty (ready_frame 45000) demo_listener)) =
     [Log Debug (WebSocketEvent (ready_frame 45000)),
      Log Debug (DispatchingEvent ''socket_response''),
      CreateTask (RunEvent ''on_socket_response'' ([ready_frame 45000], [])),
      CreateTask (KeepAliveHandler 45)] \<and>
   tasks (snd (received_message Map.empty (ready_frame 45000) demo_listener)) =
     [(RunEvent ''on_socket_response'' ([ready_frame 45000], []), Pending),
      (KeepAliveHandler 45, Pending)]"
  by (simp add: demo_defs run_defs)

text \<open>
  C7, as amended. A frame whose operation is not 0 reaches no parser of the state
  store and starts no heartbeat: whatever the parsers \<open>P\<close> are, \<open>received_message\<close> does
  what the dispatch of the raw \<open>socket_response\<close> event does, and then logs the
  operation as unhandled. On a client that has neither \<open>handle_socket_response\<close> nor
  \<open>on_socket_response\<close>, the frame leaves three log records and nothing else.
\<close>

theorem non_dispatch_frame_only_socket_response:
  assumes "py_get msg ''op'' = Inr op" and "ne_zero op"
  shows "received_message P msg c =
           (case dispatch ''socket_response'' ([msg], []) (emit (Log Debug (WebSocketEvent msg)) c) of
              (Inl e, c2) \<Rightarrow> (Inl e, c2)
            | (Inr u, c2) \<Rightarrow> (Inr (), emit (Log Info (UnhandledOp op)) c2)) \<and>
         (handlers c ''handle_socket_response'' = None \<and>
          callbacks c ''on_socket_response'' = None \<longrightarrow>
            received_message P msg c =
              (Inr (), c\<lparr>trace := trace c @
                 [Log Debug (WebSocketEvent msg),
                  Log Debug (DispatchingEvent ''socket_response''),
                  Log Info (UnhandledOp op)]\<rparr>))"
proof -
  from assms(1) obtain kvs where msg: "msg = JObj kvs"
    by (cases msg) simp_all
  from assms msg have 1: "received_message P msg c =
           (case dispatch ''socket_response'' ([msg], []) (emit (Log Debug (WebSocketEvent msg)) c) of
              (Inl e, c2) \<Rightarrow> (Inl e, c2)
            | (Inr u, c2) \<Rightarrow> (Inr (), emit (Log Info (UnhandledOp op)) c2))"
    by (simp add: received_message_def Let_def split: prod.splits sum.splits)
  have 2: "received_message P msg c =
              (Inr (), c\<lparr>trace := trace c @
                 [Log Debug (WebSocketEvent msg),
                  Log Debug (DispatchingEvent ''socket_response''),
                  Log Info (UnhandledOp op)]\<rparr>)"
    if "handlers c ''handle_socket_response'' = None" and "callbacks c ''on_socket_response'' = None"
    using that unfolding 1
    by (simp add: dispatch_def Let_def emit_def has_callback_def)
  from 1 2 show ?thesis by blast
qed

theorem non_dispatch_frame_only_socket_response_witness:
  "py_get ack_frame ''op'' = Inr (JInt 11) \<and> ne_zero (JInt 11) \<and>
   received_message demo_parsers ack_frame demo_session =
     (Inr (), demo_session\<lparr>trace :=
        [Log Debug (WebSocketEvent ack_frame),
         Log Debug (DispatchingEvent ''socket_response''),
         Log Info (UnhandledOp (JInt 11))]\<rparr>)"
  using non_dispatch_frame_only_socket_response [of ack_frame "JInt 11" demo_parsers demo_session]
  by (simp add: demo_defs run_defs)

text \<open>
  C7 as it stands fails: a frame with operation 11 is handed to the
  \<open>socket_response\<close> hooks all the same. On a client with a registered
  \<open>on_socket_response\<close> the callback is scheduled for it and runs when its task is
  resumed; on a client whose class defines \<open>handle_socket_response\<close> the handler is
  called with it and what the handler does to the state store is done.
\<close>

theorem non_dispatch_frame_reaches_handlers:
  "tasks (snd (received_message Map.empty ack_frame demo_listener)) =
     [(RunEvent ''on_socket_response'' ([ack_frame], []), Pending)] \<and>
   trace (activate 0 0 (snd (received_message Map.empty ack_frame demo_listener))) =
     [Log Debug (WebSocketEvent ack_frame),
      Log Debug (DispatchingEvent ''socket_response''),
      CreateTask (RunEvent ''on_socket_response'' ([ack_frame], [])),
      Log Info (UnhandledOp (JInt 11)),
      RunCallback ''on_socket_response'' ([ack_frame], [])] \<and>
   messages (connection demo_recorder) = [] \<and>
   messages (connection (snd (received_message Map.empty ack_frame demo_recorder))) =
     [JArr [ack_frame]] \<and>
   trace (snd (received_message Map.empty ack_frame demo_recorder)) =
     [Log Debug (WebSocketEvent ack_frame),
      Log Debug (DispatchingEvent ''socket_response''),
      CallHandler ''handle_socket_response'' ([ack_frame], []),
      Log Info (UnhandledOp (JInt 11))]"
  by (simp add: demo_defs run_defs)

subsection \<open>The heartbeat\<close>

lemma keep_alive_pass_closed: "u_closed c \<Longrightarrow> keep_alive_pass secs now c = (Inr False, c)"
  by (simp add: keep_alive_pass_def)

lemma keep_alive_pass_open:
  assumes "ws c = Some w" and "\<not> u_closed c"
  shows "keep_alive_pass secs now c =
     (Inr True, c\<lparr>trace := trace c @
        [Log Debug (KeepingAlive now), WsSend (heartbeat now), Sleep secs]\<rparr>)"
  using assms by (simp add: keep_alive_pass_def ws_send_def emit_def Let_def)

lemma keep_alive_handler_open:
  assumes "ws c = Some w" and "\<not> u_closed c"
  shows "keep_alive_handler secs clock c =
     (Inr True, c\<lparr>trace := trace c @
        concat (map (\<lambda>now. [Log Debug (KeepingAlive now), WsSend (heartbeat now), Sleep secs])
                  clock)\<rparr>)"
  using assms
proof (induction clock arbitrary: c)
  case Nil
  then show ?case by simp
next
  case (Cons now clock)
  let ?c1 = "c\<lparr>trace := trace c @
    [Log Debug (KeepingAlive now), WsSend (heartbeat now), Sleep secs]\<rparr>"
  from Cons.prems have 1: "keep_alive_pass secs now c = (Inr True, ?c1)"
    by (rule keep_alive_pass_open)
  from Cons.prems have "ws ?c1 = Some w" and "\<not> u_closed ?c1" by simp_all
  then have "keep_alive_handler secs clock ?c1 = (Inr True, ?c1\<lparr>trace := trace ?c1 @
        concat (map (\<lambda>now. [Log Debug (KeepingAlive now), WsSend (heartbeat now), Sleep secs])
                  clock)\<rparr>)"
    by (rule Cons.IH)
  with 1 show ?case by simp
qed

lemma activate_keep_alive_open:
  assumes "k < length (tasks c)" and "tasks c ! k = (KeepAliveHandler secs, Pending)"
    and "ws c = Some w" and "\<not> u_closed c"
  shows "activate k now c =
     c\<lparr>trace := trace c @ [Log Debug (KeepingAlive now), WsSend (heartbeat now), Sleep secs]\<rparr>"
  using assms by (simp add: activate_def keep_alive_pass_open)

lemma activate_closed_quiet:
  assumes "u_closed c"
  shows "u_closed (activate k now c) \<and>
         filter is_heartbeat (trace (activate k now c)) = filter is_heartbeat (trace c)"
proof (cases "k < length (tasks c) \<and> snd (tasks c ! k) = Pending")
  case False
  then have "activate k now c = c"
    unfolding activate_def by (simp only: if_False)
  with assms show ?thesis by simp
next
  case True
  show ?thesis
  proof (cases "fst (tasks c ! k)")
    case (KeepAliveHandler secs)
    with True assms show ?thesis
      by (simp add: activate_def keep_alive_pass_closed set_status_def)
  next
    case (RunEvent name a)
    obtain r c1 where rc: "run_event name a c = (r, c1)" by (cases "run_event name a c")
    with run_event_quiet [of name a c] assms
    have "u_closed c1" and "filter is_heartbeat (trace c1) = filter is_heartbeat (trace c)"
      by simp_all
    with True RunEvent rc show ?thesis
      by (cases r) (simp_all add: activate_def set_status_def)
  qed
qed

lemma closed_no_heartbeats:
  assumes "u_closed c"
  shows "u_closed (activate_all resumed c) \<and>
    filter is_heartbeat (trace (activate_all resumed c)) = filter is_heartbeat (trace c)"
  using assms
proof (induction resumed arbitrary: c)
  case Nil
  then show ?case by simp
next
  case (Cons p resumed)
  obtain k now where p: "p = (k, now)" by (cases p)
  from activate_closed_quiet [OF Cons.prems, of k now]
  have 1: "u_closed (activate k now c)"
    and 2: "filter is_heartbeat (trace (activate k now c)) = filter is_heartbeat (trace c)"
    by simp_all
  from Cons.IH [OF 1] p 2 show ?case by simp
qed

lemma close_result:
  assumes "close c = (Inr (), c')"
  shows "u_closed c'"
  using assms
  by (auto simp: close_def Let_def split: if_splits option.splits)

text \<open>
  C6. On an open session (the websocket exists and \<open>_closed\<close> is false), every pass of
  the loop of \<open>keep_alive_handler(secs)\<close> sends exactly one frame, \<open>{op: 1, d: now}\<close>
  with \<open>now\<close> the clock reading \<open>int(time.time())\<close> of that pass, and then sleeps for
  \<open>secs\<close> seconds; so do any number of passes in a row, and so does the heartbeat task
  each time the event loop resumes it. Once \<open>close\<close> has returned, \<open>_closed\<close> is true,
  a pass of the loop ends it without sending, and whichever tasks the event loop
  resumes from then on, no heartbeat frame is sent.
\<close>

theorem heartbeat_each_interval_until_close:
  assumes "ws c = Some w" and "\<not> u_closed c"
  shows "keep_alive_pass secs now c =
           (Inr True, c\<lparr>trace := trace c @
              [Log Debug (KeepingAlive now),
               WsSend (JObj [(''op'', JInt 1), (''d'', JInt now)]),
               Sleep secs]\<rparr>) \<and>
         keep_alive_handler secs clock c =
           (Inr True, c\<lparr>trace := trace c @
              concat (map (\<lambda>now. [Log Debug (KeepingAlive now),
                                   WsSend (JObj [(''op'', JInt 1), (''d'', JInt now)]),
                                   Sleep secs]) clock)\<rparr>) \<and>
         (\<forall>k. k < length (tasks c) \<and> tasks c ! k = (KeepAliveHandler secs, Pending) \<longrightarrow>
            activate k now c =
              c\<lparr>trace := trace c @
                 [Log Debug (KeepingAlive now),
                  WsSend (JObj [(''op'', JInt 1), (''d'', JInt now)]),
                  Sleep secs]\<rparr>) \<and>
         (\<forall>c'. close c = (Inr (), c') \<longrightarrow>
            u_closed c' \<and>
            keep_alive_pass secs now c' = (Inr False, c') \<and>
            (\<forall>resumed. filter is_heartbeat (trace (activate_all resumed c')) =
               filter is_heartbeat (trace c')))"
proof -
  note 1 = keep_alive_pass_open [OF assms, of secs now, unfolded heartbeat_def]
  note 2 = keep_alive_handler_open [OF assms, of secs clock, unfolded heartbeat_def]
  have 3: "activate k now c =
              c\<lparr>trace := trace c @
                 [Log Debug (KeepingAlive now),
                  WsSend (JObj [(''op'', JInt 1), (''d'', JInt now)]),
                  Sleep secs]\<rparr>"
    if "k < length (tasks c)" and "tasks c ! k = (KeepAliveHandler secs, Pending)" for k
    using activate_keep_alive_open [OF that assms, of now] by (simp add: heartbeat_def)
  have 4: "u_closed c' \<and> keep_alive_pass secs now c' = (Inr False, c') \<and>
            (\<forall>resumed. filter is_heartbeat (trace (activate_all resumed c')) =
               filter is_heartbeat (trace c'))"
    if "close c = (Inr (), c')" for c'
  proof -
    from that have "u_closed c'" by (rule close_result)
    then show ?thesis
      using closed_no_heartbeats [of c'] by (simp add: keep_alive_pass_closed)
  qed
  from 1 2 3 4 show ?thesis by blast
qed

theorem heartbeat_each_interval_until_close_witness:
  "ws demo_beating = Some (JStr ''wss://gateway.example'') \<and> \<not> u_closed demo_beating \<and>
   tasks demo_beating = [(KeepAliveHandler 45, Pending)] \<and>
   trace (snd (keep_alive_handler 45 [100, 145] demo_beating)) =
     [Log Debug (KeepingAlive 100), WsSend (JObj [(''op'', JInt 1), (''d'', JInt 100)]), Sleep 45,
      Log Debug (KeepingAlive 145), WsSend (JObj [(''op'', JInt 1), (''d'', JInt 145)]), Sleep 45] \<and>
   fst (close demo_beating) = Inr () \<and>
   filter is_heartbeat (trace (activate_all [(0, 190)] (snd (close demo_beating)))) = []"
  using heartbeat_each_interval_until_close
    [of demo_beating "JStr ''wss://gateway.example''" 45 100 "[100, 145]"]
  by (simp add: demo_defs run_defs)

subsection \<open>A second \<open>READY\<close> frame\<close>

lemma call_parser_respects:
  assumes "respects_tasks P"
  shows "ws (snd (call_parser P event data c)) = ws c \<and>
        u_closed (snd (call_parser P event data c)) = u_closed c \<and>
        keep_alive (snd (call_parser P event data c)) = keep_alive c \<and>
        take (length (tasks c)) (tasks (snd (call_parser P event data c))) = tasks c"
proof (cases "\<exists>name p. event = JStr name \<and> name \<in> set known_events \<and>
    P (''parse_'' @ lower name) = Some p")
  case True
  then obtain name p where ev: "event = JStr name" "name \<in> set known_events"
    and p: "P (''parse_'' @ lower name) = Some p" by blast
  let ?c = "emit (CallParser (''parse_'' @ lower name) data) c"
  from ev p have "call_parser P event data c = p data ?c"
    by (simp add: call_parser_def Let_def)
  moreover from assms p have "ws (snd (p data ?c)) = ws ?c \<and>
        u_closed (snd (p data ?c)) = u_closed ?c \<and>
        keep_alive (snd (p data ?c)) = keep_alive ?c \<and>
        take (length (tasks ?c)) (tasks (snd (p data ?c))) = tasks ?c"
    unfolding respects_tasks_def by blast
  ultimately show ?thesis by (simp add: emit_def)
next
  case False
  then have "snd (call_parser P event data c) = c \<or>
      snd (call_parser P event data c) = emit (Log Info (UnhandledEvent event)) c"
    by (cases event) (auto simp: call_parser_def Let_def split: option.splits)
  then show ?thesis by (auto simp: emit_def)
qed

lemma demo_parsers_respect_tasks: "respects_tasks demo_parsers"
  unfolding respects_tasks_def demo_parsers_def
  using dispatch_frame [of "''ready''" "([], [])"]
  by (auto split: if_splits)

text \<open>
  C9. Let a heartbeat task \<open>k1\<close> be running on an open session (it is what \<open>keep_alive\<close>
  refers to), and let another \<open>READY\<close> frame with an integer \<open>heartbeat_interval\<close> be
  received, with parsers that leave tasks alone. Then a second heartbeat task \<open>k2\<close>
  exists afterwards, \<open>keep_alive\<close> refers to it, and task \<open>k1\<close> is still pending: it was
  not cancelled. Both tasks send a heartbeat frame when the event loop resumes them, so
  the frames are sent twice. \<open>close\<close> succeeds and cancels task \<open>k2\<close> only; task \<open>k1\<close>
  stays pending, but since \<open>_closed\<close> is now true no heartbeat frame is sent any more.
\<close>

theorem second_ready_second_heartbeat:
  assumes P: "respects_tasks P"
    and first: "keep_alive c = Some k1" "k1 < length (tasks c)"
      "tasks c ! k1 = (KeepAliveHandler secs1, Pending)"
    and "open": "ws c = Some w" "\<not> u_closed c"
    and frame: "py_get msg ''op'' = Inr op" "\<not> ne_zero op"
      "py_get msg ''t'' = Inr (JStr ''READY'')" "py_get msg ''d'' = Inr data"
      "subscript data ''heartbeat_interval'' = Inr (JInt ms)" "\<not> float_overflow ms"
    and ret: "received_message P msg c = (Inr (), c')"
  shows "\<exists>k2. k1 < k2 \<and> k2 < length (tasks c') \<and> keep_alive c' = Some k2 \<and>
           tasks c' ! k1 = (KeepAliveHandler secs1, Pending) \<and>
           tasks c' ! k2 = (KeepAliveHandler (of_int ms / 1000), Pending) \<and>
           filter is_heartbeat (trace (activate k2 now2 (activate k1 now1 c'))) =
             filter is_heartbeat (trace c') @ [WsSend (heartbeat now1), WsSend (heartbeat now2)] \<and>
           fst (close c') = Inr () \<and>
           u_closed (snd (close c')) \<and>
           tasks (snd (close c')) ! k1 = (KeepAliveHandler secs1, Pending) \<and>
           tasks (snd (close c')) ! k2 = (KeepAliveHandler (of_int ms / 1000), Cancelled) \<and>
           (\<forall>resumed. filter is_heartbeat (trace (activate_all resumed (snd (close c')))) =
              filter is_heartbeat (trace (snd (close c'))))"
proof -
  let ?c1 = "emit (Log Debug (WebSocketEvent msg)) c"
  obtain r c2 where d: "dispatch ''socket_response'' ([msg], []) ?c1 = (r, c2)"
    by (cases "dispatch ''socket_response'' ([msg], []) ?c1")
  from ret d have r: "r = Inr ()"
    by (cases r) (auto simp: received_message_def Let_def)
  from dispatch_frame [of "''socket_response''" "([msg], [])" ?c1] d
  have c2: "ws c2 = ws c" "u_closed c2 = u_closed c"
    "take (length (tasks c)) (tasks c2) = tasks c"
    by (simp_all add: emit_def)
  define c3 where "c3 = c2\<lparr>tasks := tasks c2 @ [(KeepAliveHandler (of_int ms / 1000), Pending)],
                trace := trace c2 @ [CreateTask (KeepAliveHandler (of_int ms / 1000))],
                keep_alive := Some (length (tasks c2))\<rparr>"
  let ?k2 = "length (tasks c2)"
  from frame d r c3_def have "received_message P msg c = call_parser P (JStr ''READY'') data c3"
    by (intro received_message_READY) simp_all
  with ret have cp: "call_parser P (JStr ''READY'') data c3 = (Inr (), c')" by simp
  from call_parser_respects [OF P, of "JStr ''READY''" data c3] cp
  have c': "ws c' = ws c3" "u_closed c' = u_closed c3" "keep_alive c' = keep_alive c3"
    "take (length (tasks c3)) (tasks c') = tasks c3"
    by simp_all
  have len3: "length (tasks c3) = Suc ?k2" by (simp add: c3_def)
  from c2(3) have len2: "length (tasks c) \<le> ?k2"
    by (metis length_take min.cobounded1)
  from c'(4) len3 have len': "Suc ?k2 \<le> length (tasks c')"
    by (metis length_take min.cobounded1)
  have nth': "\<And>i. i < Suc ?k2 \<Longrightarrow> tasks c' ! i = tasks c3 ! i"
    using c'(4) len3 by (metis nth_take)
  have nth2: "\<And>i. i < length (tasks c) \<Longrightarrow> tasks c2 ! i = tasks c ! i"
    using c2(3) by (metis nth_take)
  from first(2) len2 have k12: "k1 < ?k2" by simp
  have t1: "tasks c' ! k1 = (KeepAliveHandler secs1, Pending)"
    using nth' [of k1] nth2 [of k1] k12 first by (simp add: c3_def nth_append)
  have t2: "tasks c' ! ?k2 = (KeepAliveHandler (of_int ms / 1000), Pending)"
    using nth' [of ?k2] by (simp add: c3_def)
  have ka: "keep_alive c' = Some ?k2" using c'(3) by (simp add: c3_def)
  have ws': "ws c' = Some w" using c'(1) c2(1) "open" by (simp add: c3_def)
  have op': "\<not> u_closed c'" using c'(2) c2(2) "open" by (simp add: c3_def)
  from k12 len' have k1': "k1 < length (tasks c')" and k2': "?k2 < length (tasks c')"
    by simp_all
  have a1: "activate k1 now1 c' =
     c'\<lparr>trace := trace c' @
       [Log Debug (KeepingAlive now1), WsSend (heartbeat now1), Sleep secs1]\<rparr>"
    using k1' t1 ws' op' by (rule activate_keep_alive_open)
  let ?d1 = "c'\<lparr>trace := trace c' @
    [Log Debug (KeepingAlive now1), WsSend (heartbeat now1), Sleep secs1]\<rparr>"
  have a2: "activate ?k2 now2 ?d1 =
     ?d1\<lparr>trace := trace ?d1 @
       [Log Debug (KeepingAlive now2), WsSend (heartbeat now2), Sleep (of_int ms / 1000)]\<rparr>"
    by (rule activate_keep_alive_open [where w = w]) (use k2' t2 ws' op' in simp_all)
  have hb: "is_heartbeat (WsSend (heartbeat now))" for now
    by (simp add: is_heartbeat_def heartbeat_def dict_get_def)
  have nhb: "\<not> is_heartbeat (Log l m)" "\<not> is_heartbeat (Sleep s)" for l m s
    by (simp_all add: is_heartbeat_def)
  have dup: "filter is_heartbeat (trace (activate ?k2 now2 (activate k1 now1 c'))) =
             filter is_heartbeat (trace c') @ [WsSend (heartbeat now1), WsSend (heartbeat now2)]"
    by (simp add: a1 a2 hb nhb)
  have cl: "close c' = (Inr (), (cancel ?k2 (emit WsClose c'))\<lparr>u_closed := True\<rparr>)"
    using ws' op' ka by (simp add: close_def Let_def emit_def)
  have cl1: "tasks (snd (close c')) ! k1 = (KeepAliveHandler secs1, Pending)"
    using k12 k2' t1 t2 by (simp add: cl cancel_def emit_def Let_def)
  have cl2: "tasks (snd (close c')) ! ?k2 = (KeepAliveHandler (of_int ms / 1000), Cancelled)"
    using k2' t2 by (simp add: cl cancel_def emit_def Let_def)
  have clc: "u_closed (snd (close c'))" by (simp add: cl)
  from closed_no_heartbeats [OF clc]
  have quiet: "\<forall>resumed. filter is_heartbeat (trace (activate_all resumed (snd (close c')))) =
              filter is_heartbeat (trace (snd (close c')))" by blast
  from k12 k2' ka t1 t2 dup cl cl1 cl2 clc quiet show ?thesis
    by (intro exI [of _ ?k2]) simp
qed

theorem second_ready_second_heartbeat_witness:
  "respects_tasks demo_parsers \<and>
   keep_alive demo_beating = Some 0 \<and>
   tasks demo_beating = [(KeepAliveHandler 45, Pending)] \<and>
   fst (received_message demo_parsers (ready_frame 30000) demo_beating) = Inr () \<and>
   tasks (snd (received_message demo_parsers (ready_frame 30000) demo_beating)) =
     [(KeepAliveHandler 45, Pending), (KeepAliveHandler 30, Pending)] \<and>
   keep_alive (snd (received_message demo_parsers (ready_frame 30000) demo_beating)) = Some 1 \<and>
   filter is_heartbeat
     (trace (activate 1 200 (activate 0 200
        (snd (received_message demo_parsers (ready_frame 30000) demo_beating))))) =
     [WsSend (heartbeat 200), WsSend (heartbeat 200)] \<and>
   tasks (snd (close (snd (received_message demo_parsers (ready_frame 30000) demo_beating)))) =
     [(KeepAliveHandler 45, Pending), (KeepAliveHandler 30, Cancelled)]"
  using second_ready_second_heartbeat
    [OF demo_parsers_respect_tasks, of demo_beating 0 45 "JStr ''wss://gateway.example''"
        "ready_frame 30000" "JInt 0" "JObj [(''heartbeat_interval'', JInt 30000)]" 30000
        "snd (received_message demo_parsers (ready_frame 30000) demo_beating)" 200 200]
    demo_parsers_respect_tasks
  by (simp add: demo_defs run_defs lower_READY)

end
